theory Spec2Isabelle
  imports Main "HOL-Library.Sublist"
begin

section \<open>Data model of tools/quic_validator.py\<close>

text \<open>
  Python \<open>bytes\<close> are lists of 8-bit characters. Header names and values, and the body
  fragments of a response, are \<open>bytes\<close>. Stream identifiers are the non-negative integers
  the QUIC engine hands out.
\<close>

type_synonym bytes = string
type_synonym header = "bytes \<times> bytes"
type_synonym stream_id = nat

text \<open>The dataclass \<open>TestResult\<close>; \<open>details\<close> is \<open>Optional[str]\<close>.\<close>

record TestResult =
  test_name :: string
  passed :: bool
  message :: string
  duration_ms :: nat
  details :: "string option"

text \<open>
  The dictionary \<open>{'headers': ..., 'data': ...}\<close> stored per stream in
  \<open>HTTP3Client._responses\<close>.
\<close>

record PendingResponse =
  headers :: "header list"
  data :: bytes

text \<open>
  The fields \<open>_requests\<close>, \<open>_responses\<close> and \<open>_handshake_complete\<close> of \<open>HTTP3Client\<close>.
  The fields \<open>_quic\<close> and \<open>_h3\<close> belong to the protocol engine and are not part of the
  state the validator itself reads or writes.
\<close>

record HTTP3Client =
  requests :: "stream_id \<rightharpoonup> string"
  responses :: "stream_id \<rightharpoonup> PendingResponse"
  handshake_complete :: bool

definition HTTP3Client_init :: HTTP3Client where
  "HTTP3Client_init =
     \<lparr>requests = Map.empty, responses = Map.empty, handshake_complete = False\<rparr>"

text \<open>
  The events \<open>H3Connection.handle_event\<close> yields. The validator tests for
  \<open>HeadersReceived\<close> and \<open>DataReceived\<close>; every other class of event falls through both
  \<open>isinstance\<close> tests.
\<close>

datatype h3_event =
    HeadersReceived stream_id "header list"
  | DataReceived stream_id bytes
  | OtherH3Event

text \<open>
  A transport event as \<open>quic_event_received\<close> sees it: the name of its class, and the
  list of HTTP/3 events that \<open>self._h3.handle_event(event)\<close> returns for it. The HTTP/3
  layer is the engine's; what it yields is part of the input.
\<close>

record QuicEvent =
  event_name :: string
  h3_events :: "h3_event list"

section \<open>Event Demultiplexer and Stream Correlator: \<open>quic_event_received\<close>\<close>

text \<open>The body of the loop over the HTTP/3 events (source lines 56 to 69).\<close>

fun handle_h3_event :: "HTTP3Client \<Rightarrow> h3_event \<Rightarrow> HTTP3Client" where
  "handle_h3_event c (HeadersReceived sid hs) =
     c\<lparr>responses := (responses c)(sid \<mapsto> \<lparr>headers = hs, data = []\<rparr>)\<rparr>"
| "handle_h3_event c (DataReceived sid d) =
     (case responses c sid of
        Some r \<Rightarrow> c\<lparr>responses := (responses c)(sid \<mapsto> r\<lparr>data := data r @ d\<rparr>)\<rparr>
      | None \<Rightarrow> c)"
| "handle_h3_event c OtherH3Event = c"

definition quic_event_received :: "HTTP3Client \<Rightarrow> QuicEvent \<Rightarrow> HTTP3Client" where
  "quic_event_received c ev =
     (let c1 = (if event_name ev = ''HandshakeCompleted''
                then c\<lparr>handshake_complete := True\<rparr> else c)
      in foldl handle_h3_event c1 (h3_events ev))"

definition is_handshake_complete :: "HTTP3Client \<Rightarrow> bool" where
  "is_handshake_complete c = handshake_complete c"

text \<open>A session's history: the transport events delivered to one client, in order.\<close>

definition process_events :: "HTTP3Client \<Rightarrow> QuicEvent list \<Rightarrow> HTTP3Client" where
  "process_events c evs = foldl quic_event_received c evs"

text \<open>
  Two observations on a list of HTTP/3 events, used to state what a session's history
  does to one stream: whether a header event for the stream occurs, and the body bytes
  the data events for the stream carry, in arrival order.
\<close>

fun has_headers_for :: "stream_id \<Rightarrow> h3_event list \<Rightarrow> bool" where
  "has_headers_for sid [] = False"
| "has_headers_for sid (HeadersReceived s hs # es) = (s = sid \<or> has_headers_for sid es)"
| "has_headers_for sid (e # es) = has_headers_for sid es"

fun fragments_for :: "stream_id \<Rightarrow> h3_event list \<Rightarrow> bytes" where
  "fragments_for sid [] = []"
| "fragments_for sid (DataReceived s d # es) =
     (if s = sid then d @ fragments_for sid es else fragments_for sid es)"
| "fragments_for sid (e # es) = fragments_for sid es"


definition all_h3_events :: "QuicEvent list \<Rightarrow> h3_event list" where
  "all_h3_events evs = concat (map h3_events evs)"

section \<open>Exceptions, the engine and the clock\<close>

text \<open>
  An instance of a subclass of Python's \<open>Exception\<close>, by what the validator reads of it:
  \<open>type(e).__name__\<close>, whether \<open>except TimeoutError\<close> matches it (it is an instance of
  \<open>TimeoutError\<close>), and \<open>str(e)\<close>.
\<close>

datatype exc = Exc (exc_type_name: string) (exc_is_timeout: bool) (exc_str: string)

definition TimeoutError :: "string \<Rightarrow> exc" where
  "TimeoutError msg = Exc ''TimeoutError'' True msg"

definition KeyError :: "string \<Rightarrow> exc" where
  "KeyError msg = Exc ''KeyError'' False msg"

text \<open>
  What one connection of the protocol engine does, as seen by one check. Times are in
  milliseconds. \<open>connect_raises\<close> is the exception entering \<open>async with connect(...)\<close>
  raises, if any, after \<open>connect_ms\<close>; \<open>feed\<close> is the connection's event feed, each
  event with the time of its delivery counted from the moment the \<open>async with\<close> body
  starts; \<open>next_stream_id\<close> is what \<open>get_next_available_stream_id\<close> returns;
  \<open>send_raises\<close> is the exception raised while the request is built and sent, if any;
  \<open>close_raises\<close> is the exception leaving the \<open>async with\<close> block raises, if any,
  after \<open>close_ms\<close>; \<open>decode_other\<close> is \<open>bytes.decode\<close> on input that is not plain
  ASCII (the decoded text, or the \<open>UnicodeDecodeError\<close>).
\<close>

record Environment =
  connect_raises :: "exc option"
  connect_ms :: nat
  feed :: "(nat \<times> QuicEvent) list"
  next_stream_id :: stream_id
  send_raises :: "exc option"
  close_raises :: "exc option"
  close_ms :: nat
  decode_other :: "bytes \<Rightarrow> exc + string"

text \<open>
  The events delivered up to \<open>e\<close> milliseconds into the body, in feed order (an event
  is not delivered before its predecessor), and the client they leave behind.
\<close>

definition delivered :: "Environment \<Rightarrow> nat \<Rightarrow> QuicEvent list" where
  "delivered env e = map snd (takeWhile (\<lambda>(t, ev). t \<le> e) (feed env))"

definition client_at :: "Environment \<Rightarrow> HTTP3Client \<Rightarrow> nat \<Rightarrow> HTTP3Client" where
  "client_at env c0 e = process_events c0 (delivered env e)"

text \<open>
  Both waits of the validator are the same loop (source lines 130 to 134 and 87 to 91):
  \<^verbatim>\<open>
  start = time.time()
  while not READY:
      if time.time() - start > timeout: raise TimeoutError(...)
      await asyncio.sleep(0.01)
  \<close>
  The clock is deterministic: \<open>asyncio.sleep(0.01)\<close> takes exactly 10 ms and nothing
  else takes time, so the loop looks at the condition at 0, 10, 20, ... ms. The argument
  \<open>e\<close> is \<open>time.time() - start\<close> in milliseconds at the head of the loop, \<open>timeout\<close>
  the bound in milliseconds. The loop leaves either with the condition seen true or by
  raising, and the result records the clock at that moment.
\<close>

datatype poll_result = Ready nat | TimedOut nat

function poll_until :: "(nat \<Rightarrow> bool) \<Rightarrow> int \<Rightarrow> nat \<Rightarrow> poll_result" where
  "poll_until ready timeout e =
     (if ready e then Ready e
      else if int e > timeout then TimedOut e
      else poll_until ready timeout (e + 10))"
  by pat_completeness auto
termination
  by (relation "measure (\<lambda>(ready, timeout, e). nat (timeout + 10 - int e))") auto

declare poll_until.simps [simp del]

section \<open>Session Client: \<open>send_request\<close>\<close>

text \<open>
  \<open>send_request\<close> allocates the stream, sends the headers, records the request and
  waits for a PendingResponse on the stream, with its own bound \<open>timeout = 5.0\<close>. It
  returns the clock at which the wait ended together with the response. The final
  \<open>self._responses[stream_id]\<close> is a dictionary lookup, which raises \<open>KeyError\<close> on a
  missing key.
\<close>

definition send_request :: "Environment \<Rightarrow> string \<Rightarrow> (exc + PendingResponse) \<times> nat" where
  "send_request env url =
     (case send_raises env of
        Some x \<Rightarrow> (Inl x, 0)
      | None \<Rightarrow>
          (let sid = next_stream_id env;
               c0 = HTTP3Client_init\<lparr>requests := [sid \<mapsto> url]\<rparr>;
               timeout = 5
           in case poll_until (\<lambda>e. responses (client_at env c0 e) sid \<noteq> None)
                     (1000 * timeout) 0 of
                TimedOut e \<Rightarrow> (Inl (TimeoutError ''Request timeout''), e)
              | Ready e \<Rightarrow>
                  (case responses (client_at env c0 e) sid of
                     Some r \<Rightarrow> (Inr r, e)
                   | None \<Rightarrow> (Inl (KeyError ''stream_id''), e))))"

section \<open>Test Orchestrator: the two checks\<close>

record QuicValidator =
  host :: string
  port :: int
  timeout :: int
  results :: "TestResult list"

definition QuicValidator_init :: "string \<Rightarrow> int \<Rightarrow> int \<Rightarrow> QuicValidator" where
  "QuicValidator_init h p t = \<lparr>host = h, port = p, timeout = t, results = []\<rparr>"

text \<open>Decimal text of a number, as an f-string renders an \<open>int\<close>.\<close>

function str_nat :: "nat \<Rightarrow> string" where
  "str_nat n =
     (if n < 10 then [''0123456789'' ! n]
      else str_nat (n div 10) @ [''0123456789'' ! (n mod 10)])"
  by pat_completeness auto
termination
  by (relation "measure id") auto

declare str_nat.simps [simp del]

definition str_int :: "int \<Rightarrow> string" where
  "str_int i = (if i < 0 then ''-'' @ str_nat (nat (- i)) else str_nat (nat i))"

text \<open>
  \<open>value.decode()\<close>: UTF-8 decoding. Bytes below 0x80 decode to the same characters;
  on any other input the result is the environment's.
\<close>

definition decode :: "Environment \<Rightarrow> bytes \<Rightarrow> exc + string" where
  "decode env bs =
     (if list_all (\<lambda>c. (of_char c :: nat) < 128) bs then Inr bs else decode_other env bs)"

text \<open>
  The outcome of leaving the \<open>async with\<close> block: the body's outcome \<open>body\<close> at clock
  \<open>t\<close>, unless closing the connection raises, which replaces it.
\<close>

definition leave_connection ::
    "Environment \<Rightarrow> (exc + TestResult) \<times> nat \<Rightarrow> (exc + TestResult) \<times> nat" where
  "leave_connection env body =
     (case close_raises env of
        Some y \<Rightarrow> (Inl y, snd body + close_ms env)
      | None \<Rightarrow> (fst body, snd body + close_ms env))"

text \<open>
  The \<open>try\<close> block of \<open>test_quic_handshake\<close> (source lines 112 to 144): its outcome,
  a returned TestResult or a raised exception, and the clock since \<open>start_time\<close>.
\<close>

definition handshake_try :: "QuicValidator \<Rightarrow> Environment \<Rightarrow> (exc + TestResult) \<times> nat" where
  "handshake_try v env =
     (case connect_raises env of
        Some x \<Rightarrow> (Inl x, connect_ms env)
      | None \<Rightarrow>
          leave_connection env
            (case poll_until (\<lambda>e. is_handshake_complete (client_at env HTTP3Client_init e))
                    (1000 * timeout v) 0 of
               TimedOut e \<Rightarrow> (Inl (TimeoutError ''Handshake timeout''), connect_ms env + e)
             | Ready e \<Rightarrow>
                 (Inr \<lparr>test_name = ''QUIC Handshake'',
                       passed = True,
                       message = ''Handshake completed successfully'',
                       duration_ms = connect_ms env + e,
                       details = Some ''Protocol: ['h3']''\<rparr>,
                  connect_ms env + e)))"

text \<open>The two \<open>except\<close> clauses of \<open>test_quic_handshake\<close>, in source order.\<close>

definition handshake_except :: "exc \<Rightarrow> nat \<Rightarrow> TestResult" where
  "handshake_except x t =
     (if exc_is_timeout x then
        \<lparr>test_name = ''QUIC Handshake'',
         passed = False,
         message = ''Handshake timeout'',
         duration_ms = t,
         details = Some ''Server did not complete handshake within timeout period''\<rparr>
      else
        \<lparr>test_name = ''QUIC Handshake'',
         passed = False,
         message = ''Handshake failed: '' @ exc_type_name x,
         duration_ms = t,
         details = Some (exc_str x)\<rparr>)"

definition test_quic_handshake :: "QuicValidator \<Rightarrow> Environment \<Rightarrow> TestResult" where
  "test_quic_handshake v env =
     (case handshake_try v env of
        (Inr r, t) \<Rightarrow> r
      | (Inl x, t) \<Rightarrow> handshake_except x t)"

text \<open>
  The loop over the response headers (source lines 189 to 193): the decoded value of
  the first header named \<open>:status\<close>, \<open>None\<close> when there is none.
\<close>

fun find_status :: "Environment \<Rightarrow> header list \<Rightarrow> exc + string option" where
  "find_status env [] = Inr None"
| "find_status env ((name, val) # hs) =
     (if name = '':status''
      then (case decode env val of Inl x \<Rightarrow> Inl x | Inr s \<Rightarrow> Inr (Some s))
      else find_status env hs)"

text \<open>
  Source lines 187 to 201: what the check makes of the response \<open>r\<close> that
  \<open>send_request\<close> returned at clock \<open>t\<close>. An empty status text is falsy in the
  conditional expression of the message, but is not \<open>None\<close>.
\<close>

definition report_response :: "Environment \<Rightarrow> PendingResponse \<Rightarrow> nat \<Rightarrow> exc + TestResult" where
  "report_response env r t =
     (case find_status env (headers r) of
        Inl x \<Rightarrow> Inl x
      | Inr status \<Rightarrow>
          Inr \<lparr>test_name = ''HTTP/3 Request'',
               passed = (status \<noteq> None),
               message = (case status of
                            Some s \<Rightarrow> if s \<noteq> [] then ''Received HTTP response (status: '' @ s @ '')''
                                      else ''No status in response''
                          | None \<Rightarrow> ''No status in response''),
               duration_ms = t,
               details = Some (''Response size: '' @ str_nat (length (data r)) @ '' bytes'')\<rparr>)"

definition request_try :: "QuicValidator \<Rightarrow> Environment \<Rightarrow> (exc + TestResult) \<times> nat" where
  "request_try v env =
     (case connect_raises env of
        Some x \<Rightarrow> (Inl x, connect_ms env)
      | None \<Rightarrow>
          leave_connection env
            (case send_request env (host v @ '':'' @ str_int (port v)) of
               (Inl x, e) \<Rightarrow> (Inl x, connect_ms env + e)
             | (Inr r, e) \<Rightarrow> (report_response env r (connect_ms env + e), connect_ms env + e)))"

definition request_except :: "exc \<Rightarrow> nat \<Rightarrow> TestResult" where
  "request_except x t =
     \<lparr>test_name = ''HTTP/3 Request'',
      passed = False,
      message = ''Request failed: '' @ exc_type_name x,
      duration_ms = t,
      details = Some (exc_str x)\<rparr>"

definition test_http3_request :: "QuicValidator \<Rightarrow> Environment \<Rightarrow> TestResult" where
  "test_http3_request v env =
     (case request_try v env of
        (Inr r, t) \<Rightarrow> r
      | (Inl x, t) \<Rightarrow> request_except x t)"

section \<open>Test Orchestrator and Reporter: \<open>run_all_tests\<close>, \<open>print_summary\<close>, \<open>main\<close>\<close>

text \<open>
  What a run does besides computing results, in order: a check is started (with the
  label printed for it) and \<open>asyncio.sleep(0.5)\<close> is awaited. The text printed by
  \<open>_print_result\<close> and \<open>print_summary\<close> is left out.
\<close>

datatype action = RunCheck string | Sleep nat

type_synonym check = "QuicValidator \<Rightarrow> Environment \<Rightarrow> TestResult"

definition tests :: "(string \<times> check) list" where
  "tests = [(''Test 1: QUIC Handshake'', test_quic_handshake),
            (''Test 2: HTTP/3 Request'', test_http3_request)]"

text \<open>
  The \<open>for\<close> loop of \<open>run_all_tests\<close>. Every check opens a connection of its own, so
  each entry of the list comes with the environment of that connection.
\<close>

fun run_loop ::
    "QuicValidator \<times> action list \<Rightarrow> ((string \<times> check) \<times> Environment) list \<Rightarrow>
     QuicValidator \<times> action list" where
  "run_loop (v, log) [] = (v, log)"
| "run_loop (v, log) (((label, test_func), env) # rest) =
     (let result = test_func v env;
          v' = v\<lparr>results := results v @ [result]\<rparr>
      in run_loop (v', log @ [RunCheck label, Sleep 500]) rest)"

definition run_all_tests ::
    "QuicValidator \<Rightarrow> Environment \<Rightarrow> Environment \<Rightarrow> QuicValidator \<times> action list" where
  "run_all_tests v env1 env2 = run_loop (v, []) (zip tests [env1, env2])"

definition print_summary :: "QuicValidator \<Rightarrow> bool" where
  "print_summary v =
     (let passed_count = length (filter (\<lambda>r. passed r) (results v));
          failed = length (filter (\<lambda>r. \<not> passed r) (results v))
      in failed = 0)"

text \<open>The parsed command line, and what \<open>argparse\<close> fills in when nothing is given.\<close>

record Args =
  arg_host :: string
  arg_port :: int
  arg_verbose :: bool
  arg_timeout :: int

definition default_args :: Args where
  "default_args =
     \<lparr>arg_host = ''127.0.0.1'', arg_port = 8443, arg_verbose = False, arg_timeout = 5\<rparr>"

text \<open>
  A finished run: the code passed to \<open>sys.exit\<close>, the TestResults produced and the
  actions taken.
\<close>

record Run =
  exit_code :: int
  run_results :: "TestResult list"
  run_log :: "action list"

text \<open>
  \<open>main\<close>, from the parsed arguments on. \<open>available\<close> is the module's flag
  \<open>AIOQUIC_AVAILABLE\<close>.
\<close>

definition main :: "bool \<Rightarrow> Args \<Rightarrow> Environment \<Rightarrow> Environment \<Rightarrow> Run" where
  "main available args env1 env2 =
     (if \<not> available then \<lparr>exit_code = 1, run_results = [], run_log = []\<rparr>
      else
        (let validator = QuicValidator_init (arg_host args) (arg_port args) (arg_timeout args);
             (validator', log) = run_all_tests validator env1 env2;
             success = print_summary validator'
         in \<lparr>exit_code = (if success then 0 else 1),
             run_results = results validator',
             run_log = log\<rparr>))"

text \<open>
  The PendingResponse of the request's stream as the loop of \<open>send_request\<close> finds it
  at \<open>e\<close> milliseconds into the wait.
\<close>

definition response_at :: "Environment \<Rightarrow> string \<Rightarrow> nat \<Rightarrow> PendingResponse option" where
  "response_at env url e =
     responses (client_at env (HTTP3Client_init\<lparr>requests := [next_stream_id env \<mapsto> url]\<rparr>) e)
       (next_stream_id env)"

definition request_url :: "QuicValidator \<Rightarrow> string" where
  "request_url v = host v @ '':'' @ str_int (port v)"

section \<open>Deterministic fake transports\<close>

text \<open>
  The fake engine of the spec's testable properties: it connects at once, raises
  nothing, hands out stream 0 and delivers the events \<open>evs\<close> at their times.
\<close>

definition fake_transport :: "(nat \<times> QuicEvent) list \<Rightarrow> Environment" where
  "fake_transport evs =
     \<lparr>connect_raises = None, connect_ms = 0, feed = evs, next_stream_id = 0,
      send_raises = None, close_raises = None, close_ms = 0,
      decode_other = (\<lambda>bs. Inl (Exc ''UnicodeDecodeError'' False ''invalid start byte''))\<rparr>"

definition HandshakeCompleted :: QuicEvent where
  "HandshakeCompleted = \<lparr>event_name = ''HandshakeCompleted'', h3_events = []\<rparr>"

definition response_headers :: "stream_id \<Rightarrow> header list \<Rightarrow> QuicEvent" where
  "response_headers sid hs =
     \<lparr>event_name = ''StreamDataReceived'', h3_events = [HeadersReceived sid hs]\<rparr>"

section \<open>Properties of the event handler\<close>

lemma handle_h3_event_flag [simp]:
  "handshake_complete (handle_h3_event c e) = handshake_complete c"
  by (cases e) (auto split: option.splits)

lemma foldl_handle_h3_event_flag [simp]:
  "handshake_complete (foldl handle_h3_event c es) = handshake_complete c"
  by (induction es arbitrary: c) simp_all

lemma quic_event_received_flag:
  "handshake_complete (quic_event_received c ev) =
     (handshake_complete c \<or> event_name ev = ''HandshakeCompleted'')"
  by (simp add: quic_event_received_def Let_def)

lemma process_events_flag:
  "handshake_complete (process_events c evs) =
     (handshake_complete c \<or> (\<exists>ev \<in> set evs. event_name ev = ''HandshakeCompleted''))"
  unfolding process_events_def
  by (induction evs arbitrary: c) (auto simp: quic_event_received_flag)

lemma process_events_append:
  "process_events c (xs @ ys) = process_events (process_events c xs) ys"
  by (simp add: process_events_def)

lemma handle_h3_event_known:
  "responses c sid \<noteq> None \<Longrightarrow> responses (handle_h3_event c e) sid \<noteq> None"
  by (cases e) (auto split: option.splits)

lemma foldl_handle_h3_event_known:
  "responses c sid \<noteq> None \<Longrightarrow> responses (foldl handle_h3_event c es) sid \<noteq> None"
proof (induction es arbitrary: c)
  case Nil
  then show ?case by simp
next
  case (Cons e es)
  from Cons.prems have "responses (handle_h3_event c e) sid \<noteq> None"
    by (rule handle_h3_event_known)
  then show ?case using Cons.IH by simp
qed

lemma foldl_handle_h3_event_body:
  "\<not> has_headers_for sid es \<Longrightarrow> responses c sid = Some r \<Longrightarrow>
   responses (foldl handle_h3_event c es) sid =
     Some (r\<lparr>data := data r @ fragments_for sid es\<rparr>)"
proof (induction es arbitrary: c r)
  case Nil
  then show ?case by simp
next
  case (Cons e es)
  show ?case
  proof (cases e)
    case (HeadersReceived s hs)
    with Cons.prems have ne: "s \<noteq> sid" and rest: "\<not> has_headers_for sid es" by auto
    from ne Cons.prems(2) HeadersReceived
    have "responses (handle_h3_event c e) sid = Some r" by simp
    from Cons.IH [OF rest this] HeadersReceived show ?thesis by simp
  next
    case (DataReceived s d)
    with Cons.prems have rest: "\<not> has_headers_for sid es" by simp
    show ?thesis
    proof (cases "s = sid")
      case True
      with Cons.prems(2) DataReceived
      have "responses (handle_h3_event c e) sid = Some (r\<lparr>data := data r @ d\<rparr>)" by simp
      from Cons.IH [OF rest this] DataReceived True show ?thesis by simp
    next
      case False
      with Cons.prems(2) DataReceived
      have "responses (handle_h3_event c e) sid = Some r"
        by (simp split: option.splits)
      from Cons.IH [OF rest this] DataReceived False show ?thesis by simp
    qed
  next
    case OtherH3Event
    with Cons.prems have rest: "\<not> has_headers_for sid es" by simp
    from Cons.prems(2) OtherH3Event
    have "responses (handle_h3_event c e) sid = Some r" by simp
    from Cons.IH [OF rest this] OtherH3Event show ?thesis by simp
  qed
qed

lemma has_headers_for_append [simp]:
  "has_headers_for sid (xs @ ys) = (has_headers_for sid xs \<or> has_headers_for sid ys)"
  by (induction sid xs rule: has_headers_for.induct) auto

lemma fragments_for_append [simp]:
  "fragments_for sid (xs @ ys) = fragments_for sid xs @ fragments_for sid ys"
  by (induction sid xs rule: fragments_for.induct) auto

lemma handle_h3_event_flag_update:
  "handle_h3_event (c\<lparr>handshake_complete := b\<rparr>) e =
   (handle_h3_event c e)\<lparr>handshake_complete := b\<rparr>"
  by (cases e) (auto split: option.splits)

lemma foldl_handle_h3_event_flag_update:
  "foldl handle_h3_event (c\<lparr>handshake_complete := b\<rparr>) es =
   (foldl handle_h3_event c es)\<lparr>handshake_complete := b\<rparr>"
  by (induction es arbitrary: c) (simp_all add: handle_h3_event_flag_update)

lemma quic_event_received_responses:
  "responses (quic_event_received c ev) =
     responses (foldl handle_h3_event c (h3_events ev))"
  by (simp add: quic_event_received_def Let_def foldl_handle_h3_event_flag_update)

lemma process_events_known:
  "responses c sid \<noteq> None \<Longrightarrow> responses (process_events c evs) sid \<noteq> None"
proof (induction evs arbitrary: c)
  case Nil
  then show ?case by (simp add: process_events_def)
next
  case (Cons ev evs)
  from Cons.prems have "responses (quic_event_received c ev) sid \<noteq> None"
    by (simp add: quic_event_received_responses foldl_handle_h3_event_known)
  from Cons.IH [OF this] show ?case by (simp add: process_events_def)
qed

lemma process_events_body:
  "\<not> has_headers_for sid (all_h3_events evs) \<Longrightarrow> responses c sid = Some r \<Longrightarrow>
   responses (process_events c evs) sid =
     Some (r\<lparr>data := data r @ fragments_for sid (all_h3_events evs)\<rparr>)"
proof (induction evs arbitrary: c r)
  case Nil
  then show ?case by (simp add: process_events_def all_h3_events_def)
next
  case (Cons ev evs)
  from Cons.prems(1) have h1: "\<not> has_headers_for sid (h3_events ev)"
    and h2: "\<not> has_headers_for sid (all_h3_events evs)"
    by (simp_all add: all_h3_events_def)
  from foldl_handle_h3_event_body [OF h1 Cons.prems(2)]
  have "responses (quic_event_received c ev) sid =
          Some (r\<lparr>data := data r @ fragments_for sid (h3_events ev)\<rparr>)"
    by (simp add: quic_event_received_responses)
  from Cons.IH [OF h2 this] show ?case
    by (simp add: process_events_def all_h3_events_def)
qed

lemma foldl_handle_h3_event_unknown:
  "\<not> has_headers_for sid es \<Longrightarrow> responses c sid = None \<Longrightarrow>
   responses (foldl handle_h3_event c es) sid = None"
proof (induction es arbitrary: c)
  case Nil
  then show ?case by simp
next
  case (Cons e es)
  from Cons.prems have rest: "\<not> has_headers_for sid es"
    by (cases e) auto
  from Cons.prems have "responses (handle_h3_event c e) sid = None"
    by (cases e) (auto split: option.splits)
  from Cons.IH [OF rest this] show ?case by simp
qed

lemma handle_h3_event_data:
  "handle_h3_event c (DataReceived sid d) =
     (case responses c sid of
        Some r \<Rightarrow>
          c\<lparr>responses := (responses c)(sid \<mapsto> \<lparr>headers = headers r, data = data r @ d\<rparr>)\<rparr>
      | None \<Rightarrow> c)"
proof (cases "responses c sid")
  case None
  then show ?thesis by simp
next
  case (Some r)
  obtain h b where "r = \<lparr>headers = h, data = b\<rparr>" by (cases r)
  with Some show ?thesis by simp
qed

text \<open>
  C8. Every data event is handled the same way, wherever it stands in the list of
  HTTP/3 events of its transport event. Let \<open>es\<close> be the events before it: if, after
  those, the stream has a PendingResponse, the bytes are appended to its body and its
  headers are kept; if it has none, the event is dropped and the client, stream map
  included, is the one before. The handler has no failing branch. Over a whole
  transport event without a header event for the stream, a known stream's body grows
  by all the fragments for it, in arrival order, and an unknown stream stays unknown.
\<close>

theorem data_event_appends_or_dropped:
  "quic_event_received c (ev\<lparr>h3_events := es @ [DataReceived sid d]\<rparr>) =
     (let c' = quic_event_received c (ev\<lparr>h3_events := es\<rparr>)
      in case responses c' sid of
           Some r \<Rightarrow>
             c'\<lparr>responses := (responses c')(sid \<mapsto> \<lparr>headers = headers r, data = data r @ d\<rparr>)\<rparr>
         | None \<Rightarrow> c') \<and>
   (\<not> has_headers_for sid (h3_events ev) \<longrightarrow> responses c sid = Some r \<longrightarrow>
      responses (quic_event_received c ev) sid =
        Some \<lparr>headers = headers r, data = data r @ fragments_for sid (h3_events ev)\<rparr>) \<and>
   (\<not> has_headers_for sid (h3_events ev) \<longrightarrow> responses c sid = None \<longrightarrow>
      responses (quic_event_received c ev) sid = None)"
proof (intro conjI impI)
  show "quic_event_received c (ev\<lparr>h3_events := es @ [DataReceived sid d]\<rparr>) =
     (let c' = quic_event_received c (ev\<lparr>h3_events := es\<rparr>)
      in case responses c' sid of
           Some r \<Rightarrow>
             c'\<lparr>responses := (responses c')(sid \<mapsto> \<lparr>headers = headers r, data = data r @ d\<rparr>)\<rparr>
         | None \<Rightarrow> c')"
  proof -
    have "quic_event_received c (ev\<lparr>h3_events := es @ [DataReceived sid d]\<rparr>) =
        handle_h3_event (quic_event_received c (ev\<lparr>h3_events := es\<rparr>)) (DataReceived sid d)"
      by (simp add: quic_event_received_def Let_def del: handle_h3_event.simps)
    then show ?thesis
      by (simp only: handle_h3_event_data Let_def)
  qed
next
  assume "\<not> has_headers_for sid (h3_events ev)" and "responses c sid = Some r"
  from foldl_handle_h3_event_body [OF this]
  show "responses (quic_event_received c ev) sid =
        Some \<lparr>headers = headers r, data = data r @ fragments_for sid (h3_events ev)\<rparr>"
    by (simp add: quic_event_received_responses)
next
  assume "\<not> has_headers_for sid (h3_events ev)" and "responses c sid = None"
  from foldl_handle_h3_event_unknown [OF this]
  show "responses (quic_event_received c ev) sid = None"
    by (simp add: quic_event_received_responses)
qed

theorem data_event_appends_or_dropped_witness:
  "\<not> has_headers_for 4 [DataReceived 4 ''cd'', DataReceived 9 ''zz'', DataReceived 4 ''ef''] \<and>
   responses (quic_event_received
      \<lparr>requests = Map.empty,
       responses = [4 \<mapsto> \<lparr>headers = [('':status'', ''200'')], data = ''ab''\<rparr>],
       handshake_complete = True\<rparr>
      \<lparr>event_name = ''StreamDataReceived'',
       h3_events = [DataReceived 4 ''cd'', DataReceived 9 ''zz'', DataReceived 4 ''ef'']\<rparr>) 4 =
     Some \<lparr>headers = [('':status'', ''200'')], data = ''abcdef''\<rparr> \<and>
   \<not> has_headers_for 9 [DataReceived 4 ''cd'', DataReceived 9 ''zz'', DataReceived 4 ''ef''] \<and>
   responses (quic_event_received
      \<lparr>requests = Map.empty,
       responses = [4 \<mapsto> \<lparr>headers = [('':status'', ''200'')], data = ''ab''\<rparr>],
       handshake_complete = True\<rparr>
      \<lparr>event_name = ''StreamDataReceived'',
       h3_events = [DataReceived 4 ''cd'', DataReceived 9 ''zz'', DataReceived 4 ''ef'']\<rparr>) 9 =
     None \<and>
   quic_event_received HTTP3Client_init
      \<lparr>event_name = ''StreamDataReceived'',
       h3_events = [OtherH3Event, DataReceived 4 ''cd'']\<rparr> =
     HTTP3Client_init"
proof -
  let ?es = "[DataReceived 4 ''cd'', DataReceived 9 ''zz'', DataReceived 4 ''ef'']"
  let ?ev = "\<lparr>event_name = ''StreamDataReceived'', h3_events = ?es\<rparr>"
  let ?c = "\<lparr>requests = Map.empty,
       responses = [4 \<mapsto> \<lparr>headers = [('':status'', ''200'')], data = ''ab''\<rparr>],
       handshake_complete = True\<rparr>"
  let ?r = "\<lparr>headers = [('':status'', ''200'')], data = ''ab''\<rparr>"
  have n4: "\<not> has_headers_for 4 ?es" and n9: "\<not> has_headers_for 9 ?es" by simp_all
  have k4: "responses ?c 4 = Some ?r" and k9: "responses ?c 9 = None" by simp_all
  from data_event_appends_or_dropped [where c = ?c and ev = ?ev and sid = 4 and r = ?r] n4 k4
  have a: "responses (quic_event_received ?c ?ev) 4 =
      Some \<lparr>headers = [('':status'', ''200'')], data = ''abcdef''\<rparr>" by simp
  from data_event_appends_or_dropped [where c = ?c and ev = ?ev and sid = 9] n9 k9
  have b: "responses (quic_event_received ?c ?ev) 9 = None" by simp
  from data_event_appends_or_dropped
    [where c = HTTP3Client_init
       and ev = "\<lparr>event_name = ''StreamDataReceived'', h3_events = []\<rparr>"
       and es = "[OtherH3Event]" and sid = 4 and d = "''cd''"]
  have d: "quic_event_received HTTP3Client_init
      \<lparr>event_name = ''StreamDataReceived'', h3_events = [OtherH3Event, DataReceived 4 ''cd'']\<rparr> =
     HTTP3Client_init"
    by (simp add: quic_event_received_def HTTP3Client_init_def)
  from n4 a n9 b d show ?thesis by blast
qed

text \<open>
  What the handler keeps of a stream's PendingResponse: a stream that has one keeps
  having one, whatever events follow; and over events that carry no header event for
  the stream, the headers stay and the body grows by exactly the data fragments for the
  stream, in arrival order.
\<close>

lemma stream_association_kept:
  "(responses c sid \<noteq> None \<longrightarrow> responses (process_events c evs) sid \<noteq> None) \<and>
   (\<not> has_headers_for sid (all_h3_events evs) \<longrightarrow> responses c sid = Some r \<longrightarrow>
      responses (process_events c evs) sid =
        Some \<lparr>headers = headers r, data = data r @ fragments_for sid (all_h3_events evs)\<rparr>)"
  by (simp add: process_events_known process_events_body)







text \<open>
  C9. The handshake flag is monotonic. Whatever events \<open>evs\<close> a session has processed,
  if \<open>is_handshake_complete\<close> returns true at that point, it still returns true after
  any further events \<open>later\<close>.
\<close>

theorem handshake_flag_monotonic:
  "is_handshake_complete (process_events c evs) \<Longrightarrow>
   is_handshake_complete (process_events c (evs @ later))"
  by (simp add: is_handshake_complete_def process_events_append process_events_flag)

theorem handshake_flag_monotonic_witness:
  "is_handshake_complete
     (process_events HTTP3Client_init
        [\<lparr>event_name = ''HandshakeCompleted'', h3_events = []\<rparr>]) \<and>
   is_handshake_complete
     (process_events HTTP3Client_init
        ([\<lparr>event_name = ''HandshakeCompleted'', h3_events = []\<rparr>] @
         [\<lparr>event_name = ''ConnectionTerminated'', h3_events = [DataReceived 0 ''x'']\<rparr>]))"
proof -
  have h: "is_handshake_complete
     (process_events HTTP3Client_init
        [\<lparr>event_name = ''HandshakeCompleted'', h3_events = []\<rparr>])"
    by (simp add: is_handshake_complete_def process_events_def quic_event_received_def)
  show ?thesis
    using h handshake_flag_monotonic [OF h] by simp
qed

section \<open>The polling loop and the HandshakeOnly check\<close>

lemma poll_until_ready:
  "ready (e + 10 * k) \<Longrightarrow>
   (\<forall>j<k. \<not> ready (e + 10 * j) \<and> int (e + 10 * j) \<le> T) \<Longrightarrow>
   poll_until ready T e = Ready (e + 10 * k)"
proof (induction k arbitrary: e)
  case 0
  then show ?case by (simp add: poll_until.simps)
next
  case (Suc k)
  from Suc.prems(2) have now: "\<not> ready e" "int e \<le> T" by force+
  have r: "ready ((e + 10) + 10 * k)" using Suc.prems(1) by (simp add: algebra_simps)
  have a: "\<forall>j<k. \<not> ready ((e + 10) + 10 * j) \<and> int ((e + 10) + 10 * j) \<le> T"
  proof (intro allI impI)
    fix j assume "j < k"
    then have "Suc j < Suc k" by simp
    with Suc.prems(2) have "\<not> ready (e + 10 * Suc j) \<and> int (e + 10 * Suc j) \<le> T" by blast
    then show "\<not> ready ((e + 10) + 10 * j) \<and> int ((e + 10) + 10 * j) \<le> T"
      by (simp add: algebra_simps)
  qed
  from Suc.IH [OF r a] now show ?case
    by (subst poll_until.simps) (simp add: algebra_simps)
qed

lemma poll_until_timed_out:
  "(\<forall>j\<le>k. \<not> ready (e + 10 * j)) \<Longrightarrow>
   (\<forall>j<k. int (e + 10 * j) \<le> T) \<Longrightarrow> T < int (e + 10 * k) \<Longrightarrow>
   poll_until ready T e = TimedOut (e + 10 * k)"
proof (induction k arbitrary: e)
  case 0
  then show ?case by (simp add: poll_until.simps)
next
  case (Suc k)
  from Suc.prems(1) have nr: "\<not> ready e" by force
  from Suc.prems(2) have le: "int e \<le> T" by force
  have a: "\<forall>j\<le>k. \<not> ready ((e + 10) + 10 * j)"
  proof (intro allI impI)
    fix j assume "j \<le> k"
    then have "Suc j \<le> Suc k" by simp
    with Suc.prems(1) have "\<not> ready (e + 10 * Suc j)" by blast
    then show "\<not> ready ((e + 10) + 10 * j)" by (simp add: algebra_simps)
  qed
  have b: "\<forall>j<k. int ((e + 10) + 10 * j) \<le> T"
  proof (intro allI impI)
    fix j assume "j < k"
    then have "Suc j < Suc k" by simp
    with Suc.prems(2) have "int (e + 10 * Suc j) \<le> T" by blast
    then show "int ((e + 10) + 10 * j) \<le> T" by (simp add: algebra_simps)
  qed
  have c: "T < int ((e + 10) + 10 * k)" using Suc.prems(3) by (simp add: algebra_simps)
  from Suc.IH [OF a b c] nr le show ?case
    by (subst poll_until.simps) (simp add: algebra_simps)
qed

text \<open>What a result of the loop says about the condition.\<close>

lemma poll_until_Ready_D:
  "poll_until ready T e = Ready e' \<Longrightarrow>
   ready e' \<and> (\<exists>k. e' = e + 10 * k \<and> (\<forall>j<k. \<not> ready (e + 10 * j) \<and> int (e + 10 * j) \<le> T))"
proof (induction ready T e rule: poll_until.induct)
  case (1 ready T e)
  show ?case
  proof (cases "ready e")
    case True
    with "1.prems" have "e' = e" by (simp add: poll_until.simps)
    with True show ?thesis by (intro conjI exI [of _ 0]) simp_all
  next
    case False
    show ?thesis
    proof (cases "int e > T")
      case True
      with False "1.prems" show ?thesis by (simp add: poll_until.simps)
    next
      case nt: False
      with False "1.prems" have rec: "poll_until ready T (e + 10) = Ready e'"
        by (simp add: poll_until.simps)
      from "1.IH" [OF False nt rec] obtain k where
        r: "ready e'" and k: "e' = e + 10 + 10 * k"
        and a: "\<forall>j<k. \<not> ready (e + 10 + 10 * j) \<and> int (e + 10 + 10 * j) \<le> T" by blast
      have "\<forall>j<Suc k. \<not> ready (e + 10 * j) \<and> int (e + 10 * j) \<le> T"
      proof (intro allI impI)
        fix j assume j: "j < Suc k"
        show "\<not> ready (e + 10 * j) \<and> int (e + 10 * j) \<le> T"
        proof (cases j)
          case 0
          with False nt show ?thesis by simp
        next
          case (Suc i)
          with j have "i < k" by simp
          with a have "\<not> ready (e + 10 + 10 * i) \<and> int (e + 10 + 10 * i) \<le> T" by blast
          with Suc show ?thesis by (simp add: algebra_simps)
        qed
      qed
      moreover have "e' = e + 10 * Suc k" using k by simp
      ultimately show ?thesis using r by blast
    qed
  qed
qed

lemma poll_until_TimedOut_D:
  "poll_until ready T e = TimedOut e' \<Longrightarrow>
   T < int e' \<and> (\<exists>k. e' = e + 10 * k \<and> (\<forall>j\<le>k. \<not> ready (e + 10 * j)))"
proof (induction ready T e rule: poll_until.induct)
  case (1 ready T e)
  show ?case
  proof (cases "ready e")
    case True
    with "1.prems" show ?thesis by (simp add: poll_until.simps)
  next
    case False
    show ?thesis
    proof (cases "int e > T")
      case True
      with False "1.prems" have "e' = e" by (simp add: poll_until.simps)
      with True False show ?thesis by (intro conjI exI [of _ 0]) simp_all
    next
      case nt: False
      with False "1.prems" have rec: "poll_until ready T (e + 10) = TimedOut e'"
        by (simp add: poll_until.simps)
      from "1.IH" [OF False nt rec] obtain k where
        t: "T < int e'" and k: "e' = e + 10 + 10 * k"
        and a: "\<forall>j\<le>k. \<not> ready (e + 10 + 10 * j)" by blast
      have "\<forall>j\<le>Suc k. \<not> ready (e + 10 * j)"
      proof (intro allI impI)
        fix j assume j: "j \<le> Suc k"
        show "\<not> ready (e + 10 * j)"
        proof (cases j)
          case 0
          with False show ?thesis by simp
        next
          case (Suc i)
          with j have "i \<le> k" by simp
          with a have "\<not> ready (e + 10 + 10 * i)" by blast
          with Suc show ?thesis by (simp add: algebra_simps)
        qed
      qed
      moreover have "e' = e + 10 * Suc k" using k by simp
      ultimately show ?thesis using t by blast
    qed
  qed
qed


lemma poll_until_Ready_iff:
  "(\<exists>e'. poll_until ready T e = Ready e') \<longleftrightarrow>
   (\<exists>k. ready (e + 10 * k) \<and> (\<forall>j<k. int (e + 10 * j) \<le> T))"
proof
  assume "\<exists>e'. poll_until ready T e = Ready e'"
  then obtain e' where "poll_until ready T e = Ready e'" ..
  from poll_until_Ready_D [OF this] show "\<exists>k. ready (e + 10 * k) \<and> (\<forall>j<k. int (e + 10 * j) \<le> T)"
    by blast
next
  assume "\<exists>k. ready (e + 10 * k) \<and> (\<forall>j<k. int (e + 10 * j) \<le> T)"
  then obtain k where "ready (e + 10 * k)" "\<forall>j<k. int (e + 10 * j) \<le> T" by blast
  then show "\<exists>e'. poll_until ready T e = Ready e'"
  proof (induction k arbitrary: e)
    case 0
    then show ?case by (simp add: poll_until.simps)
  next
    case (Suc k)
    show ?case
    proof (cases "ready e")
      case True
      then show ?thesis by (simp add: poll_until.simps)
    next
      case False
      from Suc.prems(2) have le: "int e \<le> T" by force
      have r: "ready ((e + 10) + 10 * k)" using Suc.prems(1) by (simp add: algebra_simps)
      have b: "\<forall>j<k. int ((e + 10) + 10 * j) \<le> T"
      proof (intro allI impI)
        fix j assume "j < k"
        then have "Suc j < Suc k" by simp
        with Suc.prems(2) have "int (e + 10 * Suc j) \<le> T" by blast
        then show "int ((e + 10) + 10 * j) \<le> T" by (simp add: algebra_simps)
      qed
      from Suc.IH [OF r b] False le show ?thesis
        by (subst poll_until.simps) simp
    qed
  qed
qed

lemma poll_until_not_Ready:
  "(\<forall>e'. poll_until ready T e \<noteq> Ready e') \<Longrightarrow> \<exists>e'. poll_until ready T e = TimedOut e'"
  by (cases "poll_until ready T e") auto

lemma takeWhile_weaker:
  "(\<And>x. P x \<Longrightarrow> Q x) \<Longrightarrow> \<exists>ys. takeWhile Q xs = takeWhile P xs @ ys"
  by (induction xs) auto

lemma delivered_mono:
  "e \<le> e' \<Longrightarrow> \<exists>ys. delivered env e' = delivered env e @ ys"
proof -
  assume le: "e \<le> e'"
  have "\<exists>ys. takeWhile (\<lambda>(t, ev). t \<le> e') (feed env) =
              takeWhile (\<lambda>(t, ev). t \<le> e) (feed env) @ ys"
    by (rule takeWhile_weaker) (use le in auto)
  then show ?thesis by (auto simp: delivered_def)
qed

lemma flag_mono:
  "e \<le> e' \<Longrightarrow> is_handshake_complete (client_at env c0 e) \<Longrightarrow>
   is_handshake_complete (client_at env c0 e')"
proof -
  assume le: "e \<le> e'" and f: "is_handshake_complete (client_at env c0 e)"
  from delivered_mono [OF le] obtain ys where "delivered env e' = delivered env e @ ys" ..
  with f show ?thesis
    by (simp add: client_at_def is_handshake_complete_def process_events_append
        process_events_flag)
qed

lemma handshake_passed_iff:
  "passed (test_quic_handshake v env) \<longleftrightarrow>
   connect_raises env = None \<and> close_raises env = None \<and>
   (\<exists>e. poll_until (\<lambda>e. is_handshake_complete (client_at env HTTP3Client_init e))
          (1000 * timeout v) 0 = Ready e)"
  by (cases "poll_until (\<lambda>e. is_handshake_complete (client_at env HTTP3Client_init e))
          (1000 * timeout v) 0")
     (auto simp: test_quic_handshake_def handshake_try_def leave_connection_def
        handshake_except_def split: option.splits)

lemma handshake_timed_out:
  "connect_raises env = None \<Longrightarrow> close_raises env = None \<Longrightarrow>
   poll_until (\<lambda>e. is_handshake_complete (client_at env HTTP3Client_init e))
          (1000 * timeout v) 0 = TimedOut e \<Longrightarrow>
   test_quic_handshake v env = handshake_except (TimeoutError ''Handshake timeout'')
      (connect_ms env + e + close_ms env)"
  by (simp add: test_quic_handshake_def handshake_try_def leave_connection_def)

text \<open>
  C5, amended. With a connection that is established and closed without an exception,
  the HandshakeOnly check passes if and only if the flag is seen set at one of the
  polls, taken every 10 ms from 0, where every earlier poll was at an elapsed time not
  above the timeout: the last poll is the first one after the timeout has elapsed.
  Hence a handshake that completes strictly before the timeout passes, and a transport
  that never signals completion yields passed=false with the message
  \<open>Handshake timeout\<close>.
\<close>

theorem handshake_check_passes_iff_polled:
  "(passed (test_quic_handshake v env) \<longleftrightarrow>
      connect_raises env = None \<and> close_raises env = None \<and>
      (\<exists>k. is_handshake_complete (client_at env HTTP3Client_init (10 * k)) \<and>
           (\<forall>j<k. int (10 * j) \<le> 1000 * timeout v))) \<and>
   (connect_raises env = None \<and> close_raises env = None \<and>
    is_handshake_complete (client_at env HTTP3Client_init c) \<and> int c < 1000 * timeout v
      \<longrightarrow> passed (test_quic_handshake v env)) \<and>
   (connect_raises env = None \<and> close_raises env = None \<and>
    (\<forall>e. \<not> is_handshake_complete (client_at env HTTP3Client_init e))
      \<longrightarrow> \<not> passed (test_quic_handshake v env) \<and>
          message (test_quic_handshake v env) = ''Handshake timeout'')"
proof (intro conjI impI)
  show iff: "passed (test_quic_handshake v env) \<longleftrightarrow>
      connect_raises env = None \<and> close_raises env = None \<and>
      (\<exists>k. is_handshake_complete (client_at env HTTP3Client_init (10 * k)) \<and>
           (\<forall>j<k. int (10 * j) \<le> 1000 * timeout v))"
    using poll_until_Ready_iff
      [of "\<lambda>e. is_handshake_complete (client_at env HTTP3Client_init e)" "1000 * timeout v" 0]
    by (simp add: handshake_passed_iff)
  {
    assume a: "connect_raises env = None \<and> close_raises env = None \<and>
      is_handshake_complete (client_at env HTTP3Client_init c) \<and> int c < 1000 * timeout v"
    let ?k = "(c + 9) div 10"
    have "c \<le> 10 * ?k" by arith
    with a have f: "is_handshake_complete (client_at env HTTP3Client_init (10 * ?k))"
      using flag_mono by blast
    have "\<forall>j<?k. int (10 * j) \<le> 1000 * timeout v"
    proof (intro allI impI)
      fix j assume "j < ?k"
      then have "10 * j < c" by arith
      with a show "int (10 * j) \<le> 1000 * timeout v" by linarith
    qed
    with f a iff show "passed (test_quic_handshake v env)" by blast
  }
  {
    assume a: "connect_raises env = None \<and> close_raises env = None \<and>
      (\<forall>e. \<not> is_handshake_complete (client_at env HTTP3Client_init e))"
    with iff show "\<not> passed (test_quic_handshake v env)" by blast
    have "\<forall>e'. poll_until (\<lambda>e. is_handshake_complete (client_at env HTTP3Client_init e))
          (1000 * timeout v) 0 \<noteq> Ready e'"
      using a poll_until_Ready_D by blast
    from poll_until_not_Ready [OF this] obtain e' where
      "poll_until (\<lambda>e. is_handshake_complete (client_at env HTTP3Client_init e))
          (1000 * timeout v) 0 = TimedOut e'" ..
    with a have "test_quic_handshake v env =
        handshake_except (TimeoutError ''Handshake timeout'') (connect_ms env + e' + close_ms env)"
      using handshake_timed_out by blast
    then show "message (test_quic_handshake v env) = ''Handshake timeout''"
      by (simp add: handshake_except_def TimeoutError_def)
  }
qed


lemma flag_at_single:
  "is_handshake_complete (client_at (fake_transport [(t, HandshakeCompleted)]) HTTP3Client_init e)
     \<longleftrightarrow> t \<le> e"
  by (simp add: client_at_def delivered_def fake_transport_def HandshakeCompleted_def
      is_handshake_complete_def process_events_def quic_event_received_def HTTP3Client_init_def)

lemma flag_at_silent:
  "\<not> is_handshake_complete (client_at (fake_transport []) HTTP3Client_init e)"
  by (simp add: client_at_def delivered_def fake_transport_def
      is_handshake_complete_def process_events_def HTTP3Client_init_def)

text \<open>
  C5, as the claim states it, fails in the direction "passes only if the flag is set
  strictly before the timeout": the loop looks at the flag before it looks at the clock.
  With a timeout of 5 s and completion signalled at 5005 ms, the poll at 5000 ms finds
  the flag unset and the elapsed time not above the timeout, sleeps, and the poll at
  5010 ms finds the flag set: the check passes.
\<close>

theorem late_handshake_still_passes:
  "\<not> is_handshake_complete
       (client_at (fake_transport [(5005, HandshakeCompleted)]) HTTP3Client_init 5004) \<and>
   is_handshake_complete
       (client_at (fake_transport [(5005, HandshakeCompleted)]) HTTP3Client_init 5005) \<and>
   timeout (QuicValidator_init ''127.0.0.1'' 8443 5) = 5 \<and>
   passed (test_quic_handshake (QuicValidator_init ''127.0.0.1'' 8443 5)
             (fake_transport [(5005, HandshakeCompleted)]))"
proof -
  let ?env = "fake_transport [(5005, HandshakeCompleted)]"
  let ?ready = "\<lambda>e. is_handshake_complete (client_at ?env HTTP3Client_init e)"
  have "?ready (0 + 10 * 501) \<and> (\<forall>j<501. int (0 + 10 * j) \<le> 1000 * 5)"
    by (simp add: flag_at_single)
  then have "\<exists>k. ?ready (0 + 10 * k) \<and> (\<forall>j<k. int (0 + 10 * j) \<le> 1000 * 5)" by blast
  then have "\<exists>e'. poll_until ?ready (1000 * 5) 0 = Ready e'"
    by (simp only: poll_until_Ready_iff)
  then have "passed (test_quic_handshake (QuicValidator_init ''127.0.0.1'' 8443 5) ?env)"
    by (simp add: handshake_passed_iff QuicValidator_init_def fake_transport_def)
  then show ?thesis
    by (simp add: flag_at_single QuicValidator_init_def)
qed

theorem handshake_check_passes_iff_polled_witness:
  "connect_raises (fake_transport [(1, HandshakeCompleted)]) = None \<and>
   close_raises (fake_transport [(1, HandshakeCompleted)]) = None \<and>
   is_handshake_complete
       (client_at (fake_transport [(1, HandshakeCompleted)]) HTTP3Client_init 1) \<and>
   int 1 < 1000 * timeout (QuicValidator_init ''127.0.0.1'' 8443 5) \<and>
   passed (test_quic_handshake (QuicValidator_init ''127.0.0.1'' 8443 5)
             (fake_transport [(1, HandshakeCompleted)])) \<and>
   connect_raises (fake_transport []) = None \<and>
   close_raises (fake_transport []) = None \<and>
   \<not> is_handshake_complete (client_at (fake_transport []) HTTP3Client_init 7) \<and>
   \<not> passed (test_quic_handshake (QuicValidator_init ''127.0.0.1'' 8443 5)
               (fake_transport [])) \<and>
   message (test_quic_handshake (QuicValidator_init ''127.0.0.1'' 8443 5)
               (fake_transport [])) = ''Handshake timeout''"
proof -
  let ?v = "QuicValidator_init ''127.0.0.1'' 8443 5"
  let ?e1 = "fake_transport [(1, HandshakeCompleted)]"
  let ?e0 = "fake_transport []"
  have h1: "connect_raises ?e1 = None \<and> close_raises ?e1 = None \<and>
      is_handshake_complete (client_at ?e1 HTTP3Client_init 1) \<and> int 1 < 1000 * timeout ?v"
    by (simp add: flag_at_single) (simp add: fake_transport_def QuicValidator_init_def)
  have h0: "connect_raises ?e0 = None \<and> close_raises ?e0 = None \<and>
      (\<forall>e. \<not> is_handshake_complete (client_at ?e0 HTTP3Client_init e))"
    by (simp add: flag_at_silent) (simp add: fake_transport_def)
  from handshake_check_passes_iff_polled [of ?v ?e1 1] h1
  have p1: "passed (test_quic_handshake ?v ?e1)" by blast
  from handshake_check_passes_iff_polled [of ?v ?e0] h0
  have p0: "\<not> passed (test_quic_handshake ?v ?e0) \<and>
      message (test_quic_handshake ?v ?e0) = ''Handshake timeout''" by blast
  from h1 h0 p1 p0 show ?thesis by blast
qed

section \<open>The FullRequestResponse check\<close>


lemma send_request_unfold:
  "send_raises env = None \<Longrightarrow>
   send_request env url =
     (case poll_until (\<lambda>e. response_at env url e \<noteq> None) 5000 0 of
        TimedOut e \<Rightarrow> (Inl (TimeoutError ''Request timeout''), e)
      | Ready e \<Rightarrow>
          (case response_at env url e of
             Some r \<Rightarrow> (Inr r, e)
           | None \<Rightarrow> (Inl (KeyError ''stream_id''), e)))"
  unfolding send_request_def response_at_def Let_def by simp



lemma request_result:
  "connect_raises env = None \<Longrightarrow> close_raises env = None \<Longrightarrow>
   send_request env (request_url v) = (Inr r, e) \<Longrightarrow>
   test_http3_request v env =
     (case report_response env r (connect_ms env + e) of
        Inl x \<Rightarrow> request_except x (connect_ms env + e + close_ms env)
      | Inr res \<Rightarrow> res)"
  by (simp add: test_http3_request_def request_try_def leave_connection_def request_url_def
      split: sum.splits)

lemma find_status_first:
  "\<forall>h \<in> set pre. fst h \<noteq> '':status'' \<Longrightarrow>
   find_status env (pre @ ('':status'', val) # post) =
     (case decode env val of Inl x \<Rightarrow> Inl x | Inr s \<Rightarrow> Inr (Some s))"
  by (induction pre) auto

lemma find_status_none:
  "\<forall>h \<in> set hs. fst h \<noteq> '':status'' \<Longrightarrow> find_status env hs = Inr None"
  by (induction hs) auto

lemma decode_200: "decode env ''200'' = Inr ''200''"
  by (simp add: decode_def)



lemma report_status_200:
  "headers r = [('':status'', ''200'')] \<Longrightarrow>
   report_response env r t =
     Inr \<lparr>test_name = ''HTTP/3 Request'', passed = True,
          message = ''Received HTTP response (status: 200)'', duration_ms = t,
          details = Some (''Response size: '' @ str_nat (length (data r)) @ '' bytes'')\<rparr>"
  by (simp add: report_response_def decode_200)

lemma report_no_status:
  "\<forall>h \<in> set (headers r). fst h \<noteq> '':status'' \<Longrightarrow>
   report_response env r t =
     Inr \<lparr>test_name = ''HTTP/3 Request'', passed = False,
          message = ''No status in response'', duration_ms = t,
          details = Some (''Response size: '' @ str_nat (length (data r)) @ '' bytes'')\<rparr>"
  by (simp add: report_response_def find_status_none)







lemma response_at_single:
  "response_at (fake_transport [(t, response_headers 0 hs)]) url e =
     (if t \<le> e then Some \<lparr>headers = hs, data = []\<rparr> else None)"
  by (simp add: response_at_def client_at_def delivered_def fake_transport_def
      response_headers_def process_events_def quic_event_received_def HTTP3Client_init_def)

lemma fake_transport_quiet [simp]:
  "connect_raises (fake_transport evs) = None"
  "send_raises (fake_transport evs) = None"
  "close_raises (fake_transport evs) = None"
  "connect_ms (fake_transport evs) = 0"
  "close_ms (fake_transport evs) = 0"
  by (simp_all add: fake_transport_def)




lemma send_request_single:
  assumes "10 * k \<le> (5000::nat)"
  shows "send_request (fake_transport [(10 * k, response_headers 0 hs)]) url =
           (Inr \<lparr>headers = hs, data = []\<rparr>, 10 * k)"
proof -
  let ?env = "fake_transport [(10 * k, response_headers 0 hs)]"
  have a: "response_at ?env url (0 + 10 * k) \<noteq> None" by (simp add: response_at_single)
  have b: "\<forall>j<k. \<not> response_at ?env url (0 + 10 * j) \<noteq> None \<and> int (0 + 10 * j) \<le> 5000"
    using assms by (auto simp: response_at_single)
  have "poll_until (\<lambda>e. response_at ?env url e \<noteq> None) 5000 0 = Ready (0 + 10 * k)"
    using a b by (rule poll_until_ready)
  then show ?thesis
    by (simp add: send_request_unfold response_at_single)
qed

lemma send_request_late:
  assumes "5010 < t"
  shows "send_request (fake_transport [(t, response_headers 0 hs)]) url =
           (Inl (TimeoutError ''Request timeout''), 5010)"
proof -
  let ?env = "fake_transport [(t, response_headers 0 hs)]"
  have a: "\<forall>j\<le>501. \<not> response_at ?env url (0 + 10 * j) \<noteq> None"
    using assms by (auto simp: response_at_single)
  have b: "\<forall>j<501. int (0 + 10 * j) \<le> 5000" by auto
  have c: "(5000::int) < int (0 + 10 * 501)" by simp
  have "poll_until (\<lambda>e. response_at ?env url e \<noteq> None) 5000 0 = TimedOut (0 + 10 * 501)"
    using a b c by (rule poll_until_timed_out)
  then show ?thesis
    by (simp add: send_request_unfold)
qed

lemma str_nat_digit: "n < 10 \<Longrightarrow> str_nat n = [''0123456789'' ! n]"
  by (subst str_nat.simps) simp

lemma request_timeout_result:
  "connect_raises env = None \<Longrightarrow> close_raises env = None \<Longrightarrow>
   send_request env (request_url v) = (Inl x, e) \<Longrightarrow>
   test_http3_request v env = request_except x (connect_ms env + e + close_ms env)"
  by (simp add: test_http3_request_def request_try_def leave_connection_def request_url_def)

text \<open>
  C1. The wait of \<open>send_request\<close> is bounded by its own \<open>timeout = 5.0\<close>, whatever
  timeout the validator was configured with. Configured with 1 s and a response whose
  headers arrive after 3000 ms, no PendingResponse exists after 1 s (nor at 2999 ms),
  yet no timeout is signalled and the check passes at 3000 ms. Configured with 10 s and
  a response whose headers arrive after 7000 ms, the wait raises \<open>Request timeout\<close>
  at 5010 ms although the response arrives within the configured 10 s.
\<close>

theorem request_wait_ignores_configured_timeout:
  "timeout (QuicValidator_init ''127.0.0.1'' 8443 1) = 1 \<and>
   response_at (fake_transport [(3000, response_headers 0 [('':status'', ''200'')])])
      (request_url (QuicValidator_init ''127.0.0.1'' 8443 1)) 2999 = None \<and>
   test_http3_request (QuicValidator_init ''127.0.0.1'' 8443 1)
      (fake_transport [(3000, response_headers 0 [('':status'', ''200'')])]) =
     \<lparr>test_name = ''HTTP/3 Request'', passed = True,
      message = ''Received HTTP response (status: 200)'', duration_ms = 3000,
      details = Some ''Response size: 0 bytes''\<rparr> \<and>
   timeout (QuicValidator_init ''127.0.0.1'' 8443 10) = 10 \<and>
   response_at (fake_transport [(7000, response_headers 0 [('':status'', ''200'')])])
      (request_url (QuicValidator_init ''127.0.0.1'' 8443 10)) 7000 =
     Some \<lparr>headers = [('':status'', ''200'')], data = []\<rparr> \<and>
   test_http3_request (QuicValidator_init ''127.0.0.1'' 8443 10)
      (fake_transport [(7000, response_headers 0 [('':status'', ''200'')])]) =
     \<lparr>test_name = ''HTTP/3 Request'', passed = False,
      message = ''Request failed: TimeoutError'', duration_ms = 5010,
      details = Some ''Request timeout''\<rparr>"
proof -
  let ?hs = "[('':status'', ''200'')]"
  have s1: "send_request (fake_transport [(10 * 300, response_headers 0 ?hs)])
       (request_url (QuicValidator_init ''127.0.0.1'' 8443 1)) =
       (Inr \<lparr>headers = ?hs, data = []\<rparr>, 10 * 300)"
    by (rule send_request_single) simp
  have r1: "test_http3_request (QuicValidator_init ''127.0.0.1'' 8443 1)
      (fake_transport [(3000, response_headers 0 ?hs)]) =
     \<lparr>test_name = ''HTTP/3 Request'', passed = True,
      message = ''Received HTTP response (status: 200)'', duration_ms = 3000,
      details = Some ''Response size: 0 bytes''\<rparr>"
    using s1 by (simp add: request_result report_status_200 str_nat_digit)
  have s2: "send_request (fake_transport [(7000, response_headers 0 ?hs)])
       (request_url (QuicValidator_init ''127.0.0.1'' 8443 10)) =
       (Inl (TimeoutError ''Request timeout''), 5010)"
    by (rule send_request_late) simp
  have r2: "test_http3_request (QuicValidator_init ''127.0.0.1'' 8443 10)
      (fake_transport [(7000, response_headers 0 ?hs)]) =
     \<lparr>test_name = ''HTTP/3 Request'', passed = False,
      message = ''Request failed: TimeoutError'', duration_ms = 5010,
      details = Some ''Request timeout''\<rparr>"
    using s2 by (simp add: request_timeout_result request_except_def TimeoutError_def)
  show ?thesis
    using r1 r2 by (simp add: response_at_single QuicValidator_init_def)
qed

text \<open>
  C10. When the header list of the response that \<open>send_request\<close> returned has a first
  \<open>:status\<close> entry with value \<open>val\<close> (no entry before it is named \<open>:status\<close>), the
  TestResult is determined by \<open>val\<close> alone, whatever entries follow: passed is true
  and the message carries the decoded \<open>val\<close> (or, when \<open>val\<close> does not decode, the
  check fails with the decoder's exception).
\<close>

theorem first_status_entry_wins:
  assumes "connect_raises env = None" and "close_raises env = None"
    and "send_request env (request_url v) = (Inr r, e)"
    and "headers r = pre @ ('':status'', val) # post"
    and "\<forall>h \<in> set pre. fst h \<noteq> '':status''"
  shows "test_http3_request v env =
     (case decode env val of
        Inl x \<Rightarrow> request_except x (connect_ms env + e + close_ms env)
      | Inr s \<Rightarrow>
          \<lparr>test_name = ''HTTP/3 Request'', passed = True,
           message = (if s \<noteq> [] then ''Received HTTP response (status: '' @ s @ '')''
                      else ''No status in response''),
           duration_ms = connect_ms env + e,
           details = Some (''Response size: '' @ str_nat (length (data r)) @ '' bytes'')\<rparr>)"
  using assms(4) find_status_first [OF assms(5), of env val post]
  by (simp add: request_result [OF assms(1-3)] report_response_def split: sum.splits)

theorem first_status_entry_wins_witness:
  "connect_raises (fake_transport
      [(20, response_headers 0 [(''server'', ''blitz''), ('':status'', ''404''), ('':status'', ''200'')])]) = None \<and>
   close_raises (fake_transport
      [(20, response_headers 0 [(''server'', ''blitz''), ('':status'', ''404''), ('':status'', ''200'')])]) = None \<and>
   send_request (fake_transport
      [(20, response_headers 0 [(''server'', ''blitz''), ('':status'', ''404''), ('':status'', ''200'')])])
      (request_url (QuicValidator_init ''127.0.0.1'' 8443 5)) =
     (Inr \<lparr>headers = [(''server'', ''blitz''), ('':status'', ''404''), ('':status'', ''200'')],
           data = []\<rparr>, 20) \<and>
   test_http3_request (QuicValidator_init ''127.0.0.1'' 8443 5)
     (fake_transport
      [(20, response_headers 0 [(''server'', ''blitz''), ('':status'', ''404''), ('':status'', ''200'')])]) =
     \<lparr>test_name = ''HTTP/3 Request'', passed = True,
      message = ''Received HTTP response (status: 404)'', duration_ms = 20,
      details = Some ''Response size: 0 bytes''\<rparr>"
proof -
  let ?hs = "[(''server'', ''blitz''), ('':status'', ''404''), ('':status'', ''200'')]"
  let ?env = "fake_transport [(20, response_headers 0 ?hs)]"
  let ?v = "QuicValidator_init ''127.0.0.1'' 8443 5"
  have "send_request (fake_transport [(10 * 2, response_headers 0 ?hs)]) (request_url ?v) =
       (Inr \<lparr>headers = ?hs, data = []\<rparr>, 10 * 2)"
    by (rule send_request_single) simp
  then have s: "send_request ?env (request_url ?v) = (Inr \<lparr>headers = ?hs, data = []\<rparr>, 20)"
    by simp
  have c: "connect_raises ?env = None" and cl: "close_raises ?env = None" by simp_all
  have h: "headers \<lparr>headers = ?hs, data = []\<rparr> =
      [(''server'', ''blitz'')] @ ('':status'', ''404'') # [('':status'', ''200'')]" by simp
  have p: "\<forall>h \<in> set [(''server'', ''blitz'')]. fst h \<noteq> '':status''" by simp
  from first_status_entry_wins [OF c cl s h p]
  have "test_http3_request ?v ?env =
     \<lparr>test_name = ''HTTP/3 Request'', passed = True,
      message = ''Received HTTP response (status: 404)'', duration_ms = 20,
      details = Some ''Response size: 0 bytes''\<rparr>"
    by (simp add: decode_def str_nat_digit)
  with c cl s show ?thesis by blast
qed

lemma response_at_with_trailers:
  "response_at
     (fake_transport
        [(11, \<lparr>event_name = ''StreamDataReceived'',
               h3_events = [HeadersReceived 0 [('':status'', ''200'')], DataReceived 0 ''ab'']\<rparr>),
         (15, response_headers 0 [(''x-trailer'', ''1'')])]) url e =
     (if e < 11 then None
      else if e < 15 then Some \<lparr>headers = [('':status'', ''200'')], data = ''ab''\<rparr>
      else Some \<lparr>headers = [(''x-trailer'', ''1'')], data = []\<rparr>)"
  by (simp add: response_at_def client_at_def delivered_def fake_transport_def
      response_headers_def process_events_def quic_event_received_def HTTP3Client_init_def)

text \<open>
  C2. A header event on a stream that already has a PendingResponse does not keep it:
  the handler assigns a fresh one with an empty body (source lines 59 to 62), so the
  body accumulated so far is lost with the earlier headers. After headers and the
  fragment \<open>ab\<close> on stream 0 the body is \<open>ab\<close>; after one more header event on
  stream 0 (trailers) the body is empty and the status header is gone. Seen from the
  FullRequestResponse check: a 200 response whose headers and body arrive at 11 ms and
  whose trailers arrive at 15 ms is reported as failed, with \<open>No status in response\<close>
  and \<open>Response size: 0 bytes\<close>.
\<close>

theorem headers_twice_reset_body:
  "responses (process_events HTTP3Client_init
      [\<lparr>event_name = ''StreamDataReceived'',
        h3_events = [HeadersReceived 0 [('':status'', ''200'')], DataReceived 0 ''ab'']\<rparr>]) 0 =
     Some \<lparr>headers = [('':status'', ''200'')], data = ''ab''\<rparr> \<and>
   responses (process_events HTTP3Client_init
      [\<lparr>event_name = ''StreamDataReceived'',
        h3_events = [HeadersReceived 0 [('':status'', ''200'')], DataReceived 0 ''ab'']\<rparr>,
       \<lparr>event_name = ''StreamDataReceived'',
        h3_events = [HeadersReceived 0 [(''x-trailer'', ''1'')]]\<rparr>]) 0 =
     Some \<lparr>headers = [(''x-trailer'', ''1'')], data = []\<rparr> \<and>
   test_http3_request (QuicValidator_init ''127.0.0.1'' 8443 5)
     (fake_transport
        [(11, \<lparr>event_name = ''StreamDataReceived'',
               h3_events = [HeadersReceived 0 [('':status'', ''200'')], DataReceived 0 ''ab'']\<rparr>),
         (15, response_headers 0 [(''x-trailer'', ''1'')])]) =
     \<lparr>test_name = ''HTTP/3 Request'', passed = False,
      message = ''No status in response'', duration_ms = 20,
      details = Some ''Response size: 0 bytes''\<rparr>"
proof -
  let ?env = "fake_transport
        [(11, \<lparr>event_name = ''StreamDataReceived'',
               h3_events = [HeadersReceived 0 [('':status'', ''200'')], DataReceived 0 ''ab'']\<rparr>),
         (15, response_headers 0 [(''x-trailer'', ''1'')])]"
  let ?v = "QuicValidator_init ''127.0.0.1'' 8443 5"
  let ?r = "\<lparr>headers = [(''x-trailer'', ''1'')], data = []\<rparr>"
  have a: "response_at ?env (request_url ?v) (0 + 10 * 2) \<noteq> None"
    by (simp add: response_at_with_trailers)
  have b: "\<forall>j<2. \<not> response_at ?env (request_url ?v) (0 + 10 * j) \<noteq> None \<and>
      int (0 + 10 * j) \<le> 5000"
    by (auto simp: response_at_with_trailers)
  have "poll_until (\<lambda>e. response_at ?env (request_url ?v) e \<noteq> None) 5000 0 =
      Ready (0 + 10 * 2)"
    using a b by (rule poll_until_ready)
  then have sr: "send_request ?env (request_url ?v) = (Inr ?r, 20)"
    by (simp add: send_request_unfold response_at_with_trailers)
  have ns: "\<forall>h \<in> set (headers ?r). fst h \<noteq> '':status''" by simp
  have "test_http3_request ?v ?env =
     \<lparr>test_name = ''HTTP/3 Request'', passed = False,
      message = ''No status in response'', duration_ms = 20,
      details = Some ''Response size: 0 bytes''\<rparr>"
    using sr report_no_status [OF ns, of ?env 20]
    by (simp add: request_result str_nat_digit)
  then show ?thesis
    by (simp add: process_events_def quic_event_received_def HTTP3Client_init_def)
qed

section \<open>Orchestrator, exit code and exceptions\<close>

lemma handshake_try_ignores_results:
  "handshake_try (v\<lparr>results := rs\<rparr>) env = handshake_try v env"
  by (simp add: handshake_try_def cong: option.case_cong)

lemma test_quic_handshake_ignores_results:
  "test_quic_handshake (v\<lparr>results := rs\<rparr>) env = test_quic_handshake v env"
  by (simp add: test_quic_handshake_def handshake_try_ignores_results)

lemma request_try_ignores_results:
  "request_try (v\<lparr>results := rs\<rparr>) env = request_try v env"
  by (simp add: request_try_def cong: option.case_cong)

lemma test_http3_request_ignores_results:
  "test_http3_request (v\<lparr>results := rs\<rparr>) env = test_http3_request v env"
  by (simp add: test_http3_request_def request_try_ignores_results)

lemma run_all_tests_eq:
  "run_all_tests v env1 env2 =
     (v\<lparr>results := results v @ [test_quic_handshake v env1, test_http3_request v env2]\<rparr>,
      [RunCheck ''Test 1: QUIC Handshake'', Sleep 500,
       RunCheck ''Test 2: HTTP/3 Request'', Sleep 500])"
  by (simp add: run_all_tests_def tests_def Let_def test_http3_request_ignores_results)

text \<open>
  C7. \<open>run_all_tests\<close> runs exactly the two checks, HandshakeOnly and then
  FullRequestResponse, each on a connection of its own; it appends their two
  TestResults in that order to the results it had, and awaits a 500 ms sleep after each
  check, so one lies between the two. The second check's result does not depend on the
  first connection: it is the same for any other first environment \<open>env1'\<close>, and when
  the first check fails the second entry is still the FullRequestResponse check's own
  result.
\<close>

theorem run_all_tests_two_checks_in_order:
  "run_all_tests v env1 env2 =
     (v\<lparr>results := results v @ [test_quic_handshake v env1, test_http3_request v env2]\<rparr>,
      [RunCheck ''Test 1: QUIC Handshake'', Sleep 500,
       RunCheck ''Test 2: HTTP/3 Request'', Sleep 500]) \<and>
   last (results (fst (run_all_tests v env1 env2))) =
     last (results (fst (run_all_tests v env1' env2))) \<and>
   (\<not> passed (test_quic_handshake v env1) \<longrightarrow>
      results (fst (run_all_tests v env1 env2)) ! Suc (length (results v)) =
        test_http3_request v env2)"
  by (simp add: run_all_tests_eq nth_append)

lemma print_summary_all: "print_summary v \<longleftrightarrow> list_all passed (results v)"
proof -
  have "\<And>rs. (length (filter (\<lambda>r. \<not> passed r) rs) = 0) = list_all passed rs"
    by (simp add: list_all_iff filter_empty_conv)
  then show ?thesis by (simp add: print_summary_def Let_def)
qed

text \<open>
  C4. The exit code of \<open>main\<close> is 0 exactly when the engine is available and every
  TestResult of the run has passed=true; otherwise it is 1. When the engine is
  unavailable the run ends with code 1, no TestResult and no check started. With the
  engine available the run's results are those of the two checks, and the verdict
  \<open>print_summary\<close> returns is the conjunction of the \<open>passed\<close> fields. (A module
  whose import of the engine failed cannot even define \<open>HTTP3Client\<close>, whose base class
  is then unbound; the interpreter ends such a process with code 1 as well, before
  \<open>main\<close>.)
\<close>

theorem exit_code_is_verdict:
  "(exit_code (main available args env1 env2) = 0 \<longleftrightarrow>
      available \<and> (\<forall>r \<in> set (run_results (main available args env1 env2)). passed r)) \<and>
   (exit_code (main available args env1 env2) \<noteq> 0 \<longrightarrow>
      exit_code (main available args env1 env2) = 1) \<and>
   (\<not> available \<longrightarrow>
      main available args env1 env2 = \<lparr>exit_code = 1, run_results = [], run_log = []\<rparr>) \<and>
   (available \<longrightarrow>
      run_results (main available args env1 env2) =
        [test_quic_handshake
           (QuicValidator_init (arg_host args) (arg_port args) (arg_timeout args)) env1,
         test_http3_request
           (QuicValidator_init (arg_host args) (arg_port args) (arg_timeout args)) env2]) \<and>
   (print_summary v \<longleftrightarrow> (\<forall>r \<in> set (results v). passed r))"
  by (auto simp: main_def Let_def run_all_tests_eq print_summary_all list_all_iff
        QuicValidator_init_def)


lemma silent_handshake_times_out:
  "handshake_try (QuicValidator_init h p 5) (fake_transport []) =
     (Inl (TimeoutError ''Handshake timeout''), 5010)"
proof -
  let ?ready = "\<lambda>e. is_handshake_complete (client_at (fake_transport []) HTTP3Client_init e)"
  have a: "\<forall>j\<le>501. \<not> ?ready (0 + 10 * j)" by (simp add: flag_at_silent)
  have b: "\<forall>j<501. int (0 + 10 * j) \<le> 5000" by auto
  have c: "(5000::int) < int (0 + 10 * 501)" by simp
  have "poll_until ?ready 5000 0 = TimedOut (0 + 10 * 501)"
    using a b c by (rule poll_until_timed_out)
  then show ?thesis
    by (simp add: handshake_try_def leave_connection_def QuicValidator_init_def)
qed

lemma early_handshake_passes:
  "test_quic_handshake (QuicValidator_init h p 5) (fake_transport [(1, HandshakeCompleted)]) =
     \<lparr>test_name = ''QUIC Handshake'', passed = True,
      message = ''Handshake completed successfully'', duration_ms = 10,
      details = Some ''Protocol: ['h3']''\<rparr>"
proof -
  let ?ready = "\<lambda>e. is_handshake_complete
      (client_at (fake_transport [(1, HandshakeCompleted)]) HTTP3Client_init e)"
  have a: "?ready (0 + 10 * 1)" by (simp add: flag_at_single)
  have b: "\<forall>j<1. \<not> ?ready (0 + 10 * j) \<and> int (0 + 10 * j) \<le> 5000"
    by (simp add: flag_at_single)
  have "poll_until ?ready 5000 0 = Ready (0 + 10 * 1)"
    using a b by (rule poll_until_ready)
  then show ?thesis
    by (simp add: test_quic_handshake_def handshake_try_def leave_connection_def
        QuicValidator_init_def)
qed

lemma not_sublist_TimeoutError:
  "\<not> sublist ''TimeoutError'' ''Handshake timeout''"
  by (simp add: sublist_Cons_right)

text \<open>
  C6, amended. Whatever exception the \<open>try\<close> block of a check raises, during
  connection establishment or later, the check returns a failed TestResult built by its
  \<open>except\<close> clauses; the checks are total functions into TestResult, so nothing
  propagates to \<open>run_all_tests\<close>. In the FullRequestResponse check, and in the
  HandshakeOnly check for an exception that is not a \<open>TimeoutError\<close>, the message
  contains the exception's type name and the details are the exception's message. A
  \<open>TimeoutError\<close> in the HandshakeOnly check gives the message \<open>Handshake timeout\<close>
  and the fixed details \<open>Server did not complete handshake within timeout period\<close>.
\<close>

theorem exceptions_become_failed_results:
  "(handshake_try v env = (Inl x, t) \<longrightarrow>
      test_quic_handshake v env = handshake_except x t \<and>
      \<not> passed (test_quic_handshake v env) \<and>
      (\<not> exc_is_timeout x \<longrightarrow>
         sublist (exc_type_name x) (message (test_quic_handshake v env)) \<and>
         details (test_quic_handshake v env) = Some (exc_str x)) \<and>
      (exc_is_timeout x \<longrightarrow>
         message (test_quic_handshake v env) = ''Handshake timeout'' \<and>
         details (test_quic_handshake v env) =
           Some ''Server did not complete handshake within timeout period'')) \<and>
   (request_try v env = (Inl x, t) \<longrightarrow>
      test_http3_request v env = request_except x t \<and>
      \<not> passed (test_http3_request v env) \<and>
      sublist (exc_type_name x) (message (test_http3_request v env)) \<and>
      details (test_http3_request v env) = Some (exc_str x)) \<and>
   (connect_raises env = Some x \<longrightarrow>
      handshake_try v env = (Inl x, connect_ms env) \<and>
      request_try v env = (Inl x, connect_ms env))"
proof -
  have sub: "\<And>pre. sublist (exc_type_name x) (pre @ exc_type_name x)"
    using sublist_appendI [of "exc_type_name x" _ "[]"] by simp
  have hs: "handshake_try v env = (Inl x, t) \<Longrightarrow>
      test_quic_handshake v env = handshake_except x t"
    by (simp add: test_quic_handshake_def)
  have rq: "request_try v env = (Inl x, t) \<Longrightarrow>
      test_http3_request v env = request_except x t"
    by (simp add: test_http3_request_def)
  have c: "connect_raises env = Some x \<Longrightarrow>
      handshake_try v env = (Inl x, connect_ms env) \<and>
      request_try v env = (Inl x, connect_ms env)"
    by (simp add: handshake_try_def request_try_def)
  show ?thesis
    using hs rq c sub [of "''Handshake failed: ''"] sub [of "''Request failed: ''"]
    by (auto simp: handshake_except_def request_except_def)
qed

text \<open>
  C6, as the claim states it, fails for the HandshakeOnly check's own timeout: the
  exception raised is \<open>TimeoutError("Handshake timeout")\<close>, the first \<open>except\<close> clause
  takes it, and the TestResult's message, \<open>Handshake timeout\<close>, does not contain the
  type name \<open>TimeoutError\<close>, nor are its details the exception's message.
\<close>

theorem handshake_timeout_hides_exception:
  "handshake_try (QuicValidator_init ''127.0.0.1'' 8443 5) (fake_transport []) =
     (Inl (Exc ''TimeoutError'' True ''Handshake timeout''), 5010) \<and>
   message (test_quic_handshake (QuicValidator_init ''127.0.0.1'' 8443 5) (fake_transport [])) =
     ''Handshake timeout'' \<and>
   \<not> sublist ''TimeoutError''
       (message (test_quic_handshake (QuicValidator_init ''127.0.0.1'' 8443 5)
          (fake_transport []))) \<and>
   details (test_quic_handshake (QuicValidator_init ''127.0.0.1'' 8443 5) (fake_transport [])) =
     Some ''Server did not complete handshake within timeout period'' \<and>
   details (test_quic_handshake (QuicValidator_init ''127.0.0.1'' 8443 5) (fake_transport [])) \<noteq>
     Some ''Handshake timeout''"
  by (simp add: test_quic_handshake_def silent_handshake_times_out handshake_except_def
      TimeoutError_def not_sublist_TimeoutError)


lemma silent_handshake_result:
  "test_quic_handshake (QuicValidator_init h p 5) (fake_transport []) =
     \<lparr>test_name = ''QUIC Handshake'', passed = False, message = ''Handshake timeout'',
      duration_ms = 5010,
      details = Some ''Server did not complete handshake within timeout period''\<rparr>"
  by (simp add: test_quic_handshake_def silent_handshake_times_out handshake_except_def
      TimeoutError_def)

lemma request_200_result:
  "test_http3_request v (fake_transport [(20, response_headers 0 [('':status'', ''200'')])]) =
     \<lparr>test_name = ''HTTP/3 Request'', passed = True,
      message = ''Received HTTP response (status: 200)'', duration_ms = 20,
      details = Some ''Response size: 0 bytes''\<rparr>"
proof -
  let ?hs = "[('':status'', ''200'')]"
  have "send_request (fake_transport [(10 * 2, response_headers 0 ?hs)]) (request_url v) =
       (Inr \<lparr>headers = ?hs, data = []\<rparr>, 10 * 2)"
    by (rule send_request_single) simp
  then show ?thesis
    by (simp add: request_result report_status_200 str_nat_digit)
qed

theorem exceptions_become_failed_results_witness:
  "connect_raises ((fake_transport [])\<lparr>connect_raises :=
      Some (Exc ''ConnectionRefusedError'' False ''[Errno 111] Connection refused'')\<rparr>) =
     Some (Exc ''ConnectionRefusedError'' False ''[Errno 111] Connection refused'') \<and>
   \<not> exc_is_timeout (Exc ''ConnectionRefusedError'' False ''[Errno 111] Connection refused'') \<and>
   test_quic_handshake (QuicValidator_init ''127.0.0.1'' 8443 5)
      ((fake_transport [])\<lparr>connect_raises :=
        Some (Exc ''ConnectionRefusedError'' False ''[Errno 111] Connection refused'')\<rparr>) =
     \<lparr>test_name = ''QUIC Handshake'', passed = False,
      message = ''Handshake failed: ConnectionRefusedError'', duration_ms = 0,
      details = Some ''[Errno 111] Connection refused''\<rparr> \<and>
   test_http3_request (QuicValidator_init ''127.0.0.1'' 8443 5)
      ((fake_transport [])\<lparr>connect_raises :=
        Some (Exc ''ConnectionRefusedError'' False ''[Errno 111] Connection refused'')\<rparr>) =
     \<lparr>test_name = ''HTTP/3 Request'', passed = False,
      message = ''Request failed: ConnectionRefusedError'', duration_ms = 0,
      details = Some ''[Errno 111] Connection refused''\<rparr> \<and>
   handshake_try (QuicValidator_init ''127.0.0.1'' 8443 5) (fake_transport []) =
     (Inl (TimeoutError ''Handshake timeout''), 5010) \<and>
   exc_is_timeout (TimeoutError ''Handshake timeout'') \<and>
   message (test_quic_handshake (QuicValidator_init ''127.0.0.1'' 8443 5) (fake_transport [])) =
     ''Handshake timeout''"
proof -
  let ?v = "QuicValidator_init ''127.0.0.1'' 8443 5"
  let ?x = "Exc ''ConnectionRefusedError'' False ''[Errno 111] Connection refused''"
  let ?env = "(fake_transport [])\<lparr>connect_raises := Some ?x\<rparr>"
  let ?to = "TimeoutError ''Handshake timeout''"
  have c: "connect_raises ?env = Some ?x" by simp
  have nt: "\<not> exc_is_timeout ?x" by simp
  have ms: "connect_ms ?env = 0" by simp
  from exceptions_become_failed_results [of ?v ?env ?x 0] c ms
  have tr: "handshake_try ?v ?env = (Inl ?x, 0)" "request_try ?v ?env = (Inl ?x, 0)"
    by simp_all
  from exceptions_become_failed_results [of ?v ?env ?x 0] tr
  have r: "test_quic_handshake ?v ?env = handshake_except ?x 0"
    "test_http3_request ?v ?env = request_except ?x 0" by simp_all
  have st: "handshake_try ?v (fake_transport []) = (Inl ?to, 5010)"
    by (rule silent_handshake_times_out)
  have it: "exc_is_timeout ?to" by (simp add: TimeoutError_def)
  from exceptions_become_failed_results [of ?v "fake_transport []" ?to 5010] st it
  have m: "message (test_quic_handshake ?v (fake_transport [])) = ''Handshake timeout''"
    by blast
  from c nt r st it m show ?thesis
    by (simp add: handshake_except_def request_except_def)
qed

theorem run_all_tests_two_checks_in_order_witness:
  "\<not> passed (test_quic_handshake (QuicValidator_init ''127.0.0.1'' 8443 5) (fake_transport [])) \<and>
   results (fst (run_all_tests (QuicValidator_init ''127.0.0.1'' 8443 5) (fake_transport [])
      (fake_transport [(20, response_headers 0 [('':status'', ''200'')])]))) ! Suc 0 =
     \<lparr>test_name = ''HTTP/3 Request'', passed = True,
      message = ''Received HTTP response (status: 200)'', duration_ms = 20,
      details = Some ''Response size: 0 bytes''\<rparr> \<and>
   snd (run_all_tests (QuicValidator_init ''127.0.0.1'' 8443 5) (fake_transport [])
      (fake_transport [(20, response_headers 0 [('':status'', ''200'')])])) =
     [RunCheck ''Test 1: QUIC Handshake'', Sleep 500,
      RunCheck ''Test 2: HTTP/3 Request'', Sleep 500]"
proof -
  let ?v = "QuicValidator_init ''127.0.0.1'' 8443 5"
  let ?e2 = "fake_transport [(20, response_headers 0 [('':status'', ''200'')])]"
  have f: "\<not> passed (test_quic_handshake ?v (fake_transport []))"
    by (simp add: silent_handshake_result)
  have l: "length (results ?v) = 0" by (simp add: QuicValidator_init_def)
  from run_all_tests_two_checks_in_order [of ?v "fake_transport []" ?e2] f l
  show ?thesis by (simp add: request_200_result)
qed

theorem exit_code_is_verdict_witness:
  "exit_code (main True default_args (fake_transport [(1, HandshakeCompleted)])
      (fake_transport [(20, response_headers 0 [('':status'', ''200'')])])) = 0 \<and>
   map passed (run_results (main True default_args (fake_transport [(1, HandshakeCompleted)])
      (fake_transport [(20, response_headers 0 [('':status'', ''200'')])]))) = [True, True] \<and>
   exit_code (main True default_args (fake_transport [])
      (fake_transport [(20, response_headers 0 [('':status'', ''200'')])])) = 1 \<and>
   main False default_args (fake_transport [(1, HandshakeCompleted)])
      (fake_transport [(20, response_headers 0 [('':status'', ''200'')])]) =
     \<lparr>exit_code = 1, run_results = [], run_log = []\<rparr>"
proof -
  let ?e1 = "fake_transport [(1, HandshakeCompleted)]"
  let ?e2 = "fake_transport [(20, response_headers 0 [('':status'', ''200'')])]"
  have v: "QuicValidator_init (arg_host default_args) (arg_port default_args)
      (arg_timeout default_args) = QuicValidator_init ''127.0.0.1'' 8443 5"
    by (simp add: default_args_def)
  have h1: "test_quic_handshake (QuicValidator_init ''127.0.0.1'' 8443 5) ?e1 =
     \<lparr>test_name = ''QUIC Handshake'', passed = True,
      message = ''Handshake completed successfully'', duration_ms = 10,
      details = Some ''Protocol: ['h3']''\<rparr>"
    by (rule early_handshake_passes)
  from exit_code_is_verdict [of True default_args ?e1 ?e2] h1
  have a: "exit_code (main True default_args ?e1 ?e2) = 0 \<and>
      map passed (run_results (main True default_args ?e1 ?e2)) = [True, True]"
    by (simp add: v request_200_result)
  from exit_code_is_verdict [of True default_args "fake_transport []" ?e2]
  have b: "exit_code (main True default_args (fake_transport []) ?e2) = 1"
    by (simp add: v silent_handshake_result request_200_result)
  from exit_code_is_verdict [of False default_args ?e1 ?e2]
  have c: "main False default_args ?e1 ?e2 = \<lparr>exit_code = 1, run_results = [], run_log = []\<rparr>"
    by simp
  from a b c show ?thesis by blast
qed

end
